theory Spec2Isabelle
  imports Complex_Main
begin

section \<open>GARCH diffusion with conditional Monte Carlo (pyfeng/garch.py)\<close>

text \<open>
  The class \<open>GarchCondMC\<close> has two methods, \<open>vol_paths\<close> and \<open>cond_spot_sigma\<close>.
  Both work on numpy arrays of float64. The embedding below keeps the structure of the
  code (the in-place filled matrix \<open>w_t\<close>, the loop over \<open>range(1, n_dt + 1)\<close>, the
  vectorised arithmetic, the order of evaluation) and reads every float64 as a real
  number: there is no rounding, overflow or underflow in the model, and \<open>ln\<close> and
  \<open>sqrt\<close> stand for \<open>np.log\<close> and \<open>np.sqrt\<close> on the arguments where numpy returns a
  finite number (\<open>sigma > 0\<close>, radicands \<open>\<ge> 0\<close>). The exact value of the model is
  what the code holds up to rounding as long as no operation of the run overflows,
  underflows to zero or is invalid; a statement about the values of the result (and not
  about the formula, the shape or the equality of two runs) therefore carries the
  hypothesis that parameters, increments and log-variances lie in a range where this is
  so.

  A two-dimensional array of shape \<open>(rows, columns)\<close> is the list of its rows.
\<close>

type_synonym matrix = "real list list"

text \<open>The exceptions that the Python run time or numpy can raise in the two methods.\<close>

datatype error = IndexError | ValueError | ZeroDivisionError

subsection \<open>The model instance and its collaborators\<close>

text \<open>
  The run-time type of a scalar field: a Python number (\<open>int\<close> or \<open>float\<close>) or a numpy
  scalar (\<open>numpy.float64\<close>). The constructor of the base class stores what the caller
  passes, so both occur.
\<close>

datatype scalar_kind = PyNumber | NpScalar

text \<open>
  The fields of \<open>self\<close> that the two methods read. They are scalars (sections 3 and 6 of
  the specification). The kind is kept for \<open>mr\<close> and \<open>vov\<close>, the operands of the one
  quotient of two scalars in the file. \<open>n_path\<close> is used through \<open>int(n_path)\<close>, a
  natural number.
\<close>

record params =
  mr :: real
  theta :: real
  vov :: real
  rho :: real
  sigma :: real
  dt :: real
  n_path :: nat
  mr_kind :: scalar_kind
  vov_kind :: scalar_kind

text \<open>
  What the methods call and the file does not define: \<open>self._bm_incr(tobs, cum)\<close>, the
  matrix of normal increments of the inherited generator (one call per run of
  \<open>vol_paths\<close>, so the draw of that call is a function of its arguments and of the
  generator state, which the record stands for); \<open>self.tobs(texp)\<close>, the observation grid
  of an expiry; and \<open>scipy.integrate.simps\<close> on the samples of one column with spacing
  \<open>dx\<close>.
\<close>

record collab =
  bm_incr :: "real list \<Rightarrow> bool \<Rightarrow> matrix"
  tobs :: "real \<Rightarrow> real list"
  simps :: "real list \<Rightarrow> real \<Rightarrow> real"

subsection \<open>numpy helpers\<close>

text \<open>\<open>np.arange(1, n + 0.1)\<close>: the floats \<open>1, 2, ..., n\<close>.\<close>

definition arange1 :: "nat \<Rightarrow> real list" where
  "arange1 n = map real [1..<n + 1]"

text \<open>\<open>np.zeros((r, c))\<close>.\<close>

definition zeros :: "nat \<Rightarrow> nat \<Rightarrow> matrix" where
  "zeros r c = replicate r (replicate c 0)"

text \<open>
  A one-dimensional array used in elementwise arithmetic with a row of \<open>n\<close> entries and
  stored into a row of \<open>n\<close> entries: numpy accepts the same length, stretches a single
  entry, and raises \<open>ValueError\<close> for every other shape.
\<close>

definition broadcast_row :: "nat \<Rightarrow> real list \<Rightarrow> error + real list" where
  "broadcast_row n r =
     (if length r = n then Inr r
      else if length r = 1 then Inr (replicate n (hd r))
      else Inl ValueError)"



subsection \<open>\<open>vol_paths\<close>\<close>

text \<open>
  The right-hand side of the assignment in the loop body (lines 46 to 55), for the
  previous row \<open>w\<close> and the increments \<open>z\<close> of the step.
\<close>

definition milstein_row :: "params \<Rightarrow> real list \<Rightarrow> real list \<Rightarrow> real list" where
  "milstein_row p w z =
     map2 (\<lambda>w z. w + (mr p * theta p * exp (- w) - mr p - (vov p)\<^sup>2 / 2) * dt p
                    + vov p * sqrt (dt p) * z) w z"

text \<open>
  The loop \<open>for i in range(1, n_dt + 1)\<close> over the remaining indices, with the matrix
  \<open>w_t\<close> passed along. \<open>rn_norm[i - 1, :]\<close> raises \<open>IndexError\<close> when the increment
  matrix has no row \<open>i - 1\<close>.
\<close>

fun vol_loop :: "params \<Rightarrow> matrix \<Rightarrow> nat list \<Rightarrow> matrix \<Rightarrow> error + matrix" where
  "vol_loop p rn_norm [] w_t = Inr w_t"
| "vol_loop p rn_norm (i # is) w_t =
     (if i - 1 < length rn_norm then
        (case broadcast_row (n_path p) (rn_norm ! (i - 1)) of
           Inl e \<Rightarrow> Inl e
         | Inr z \<Rightarrow> vol_loop p rn_norm is (w_t[i := milstein_row p (w_t ! (i - 1)) z]))
      else Inl IndexError)"

text \<open>The matrix \<open>w_t\<close> of log-variances when the loop has ended (lines 38 to 55).\<close>

definition log_var_paths :: "collab \<Rightarrow> params \<Rightarrow> real list \<Rightarrow> error + matrix" where
  "log_var_paths env p grid =
     (let n_dt = length grid;
          rn_norm = bm_incr env (arange1 n_dt) False;
          w_t = zeros (n_dt + 1) (n_path p);
          w_t = w_t[0 := replicate (n_path p) (2 * ln (sigma p))]
      in vol_loop p rn_norm [1..<n_dt + 1] w_t)"

definition vol_paths :: "collab \<Rightarrow> params \<Rightarrow> real list \<Rightarrow> error + matrix" where
  "vol_paths env p grid =
     (case log_var_paths env p grid of
        Inl e \<Rightarrow> Inl e
      | Inr w_t \<Rightarrow> Inr (map (map exp) w_t))"

subsection \<open>\<open>cond_spot_sigma\<close>\<close>

text \<open>The local variables of \<open>cond_spot_sigma\<close> after line 69.\<close>

record locals =
  rhoc :: real
  n_dt :: nat
  var_paths :: matrix
  sigma_paths :: matrix
  sigma_final :: "real list"
  int_sigma :: "real list"
  int_var :: "real list"
  int_sigma_inv :: "real list"





subsection \<open>Contracts of the collaborators and reference values\<close>






subsection \<open>Exact values and float64\<close>






subsection \<open>A concrete instance\<close>

text \<open>
  Stand-ins for the collaborators, used to run the model: fixed increments, a grid of two
  equal steps, and the composite Simpson rule on an odd number of samples (with a
  trapezoid on a last single interval).
\<close>

fun simpson :: "real list \<Rightarrow> real \<Rightarrow> real" where
  "simpson (a # b # c # ys) dx = dx / 3 * (a + 4 * b + c) + simpson (c # ys) dx"
| "simpson [a, b] dx = dx / 2 * (a + b)"
| "simpson ys dx = 0"

definition env0 :: collab where
  "env0 = \<lparr> bm_incr = (\<lambda>ts cum. map (\<lambda>t. [t / 10, - t / 10]) ts),
            tobs = (\<lambda>texp. [texp / 2, texp]),
            simps = simpson \<rparr>"

definition p0 :: params where
  "p0 = \<lparr> mr = 1, theta = 1, vov = 1 / 2, rho = - 1 / 2, sigma = 1, dt = 1 / 2, n_path = 2,
          mr_kind = PyNumber, vov_kind = PyNumber \<rparr>"


section \<open>Properties\<close>

subsection \<open>The loop writes the rows of the recurrence\<close>







subsection \<open>Integration along the rows\<close>




subsection \<open>The concrete instance meets the contracts\<close>


subsection \<open>\<open>vol_paths\<close>\<close>




text \<open>
  Claim C7. The result of \<open>vol_paths\<close> depends on the grid only through its length: on
  two grids of the same length, with the same increment generator, it returns the same
  result. (The step is the field \<open>dt\<close>, and the increments are asked for on
  \<open>1, ..., n_dt\<close>.)
\<close>

theorem vol_paths_grid_length_only:
  assumes "length grid1 = length grid2"
  shows "vol_paths env p grid1 = vol_paths env p grid2"
  using assms by (simp add: vol_paths_def log_var_paths_def)

theorem vol_paths_grid_length_only_witness:
  "vol_paths env0 p0 [1 / 2, 1] = vol_paths env0 p0 [1 / 10, 7]"
  using vol_paths_grid_length_only[of "[1 / 2, 1]" "[1 / 10, 7]" env0 p0] by simp

text \<open>
  Claim C8. \<open>vol_paths\<close> is a function of its draws: two runs with the same fields, grids
  of the same length and generators that deliver the same increment matrix return the
  same result.
\<close>

theorem vol_paths_deterministic:
  assumes "length grid1 = length grid2"
    and "bm_incr env1 (arange1 (length grid1)) False = bm_incr env2 (arange1 (length grid2)) False"
  shows "vol_paths env1 p grid1 = vol_paths env2 p grid2"
  using assms by (simp add: vol_paths_def log_var_paths_def)

theorem vol_paths_deterministic_witness:
  "vol_paths env0 p0 [1 / 2, 1]
   = vol_paths (env0\<lparr>bm_incr := (\<lambda>ts cum. if cum then [] else map (\<lambda>t. [t / 10, - t / 10]) ts)\<rparr>)
       p0 [1 / 2, 1]"
  using vol_paths_deterministic[of "[1 / 2, 1]" "[1 / 2, 1]" env0
      "env0\<lparr>bm_incr := (\<lambda>ts cum. if cum then [] else map (\<lambda>t. [t / 10, - t / 10]) ts)\<rparr>" p0]
  by (simp add: env0_def)



subsection \<open>Helpers for \<open>cond_spot_sigma\<close>\<close>











subsection \<open>\<open>cond_spot_sigma\<close>\<close>





subsection \<open>Values in the range of float64\<close>























end
